theory Spec2Isabelle
  imports Main "HOL-Library.Word"
begin

section \<open>Values crossing the wrapper's boundary\<close>

type_synonym uint8 = "8 word"
type_synonym uint64 = "64 word"
type_synonym bytes = "uint8 list"

text \<open>A text value is its sequence of code points.\<close>

type_synonym unicode = "nat list"

text \<open>
  The Python values the four entry points can be handed. The wrapper sorts them with
  \<open>PyUnicode_Check\<close>, \<open>PyString_Check\<close> and \<open>PyObject_CheckBuffer\<close>, in that order.
  \<open>PyBufferObj\<close> is an instance of any other type that has the buffer interface
  (a bytearray, a memoryview, an array): it carries the name of its type and the
  contiguous run of bytes that \<open>PyObject_GetBuffer\<close> with \<open>PyBUF_SIMPLE\<close> exports, or
  \<open>None\<close> when the exporter refuses such a view. The remaining constructors have no
  buffer interface; \<open>PyInstance\<close> is an instance of any further class, by the name of
  its type.
\<close>

datatype pyobject =
    PyUnicode unicode
  | PyString bytes
  | PyBufferObj string "bytes option"
  | PyInt int
  | PyNone
  | PyList "pyobject list"
  | PyInstance string




text \<open>\<open>type(value)\<close>, by the name of the type.\<close>

fun type_name :: "pyobject \<Rightarrow> string" where
  "type_name (PyUnicode t) = ''unicode''"
| "type_name (PyString s) = ''str''"
| "type_name (PyBufferObj n v) = n"
| "type_name (PyInt i) = ''int''"
| "type_name PyNone = ''NoneType''"
| "type_name (PyList xs) = ''list''"
| "type_name (PyInstance n) = n"

text \<open>
  Exceptions are values. \<open>TypeError\<close> carries the three values that \<open>_type_error\<close>
  formats into its message: the argument's name, the expected categories and the type of
  the value received. \<open>UnicodeEncodeError\<close> and \<open>BufferError\<close> are the failures of
  \<open>PyUnicode_AsUTF8String\<close> and \<open>PyObject_GetBuffer\<close>, which the wrapper lets through;
  \<open>MemoryError\<close> is raised by \<open>__cinit__\<close>.
\<close>

datatype pyerror =
    TypeError string "string list" string
  | UnicodeEncodeError
  | BufferError
  | MemoryError

definition type_error :: "string \<Rightarrow> string list \<Rightarrow> pyobject \<Rightarrow> pyerror" where
  "type_error argname expected val = TypeError argname expected (type_name val)"

text \<open>A parameter declared \<open>uint64 seed=0ULL\<close>: \<open>None\<close> is the call that leaves it out.\<close>

definition seed_arg :: "uint64 option \<Rightarrow> uint64" where
  "seed_arg seed = (case seed of None \<Rightarrow> 0 | Some s \<Rightarrow> s)"

section \<open>The external collaborators\<close>

text \<open>
  What the wrapper only declares and never defines is a parameter of the model:
  the bit-mixing of the two engines (the raw digest, 8 and 16 bytes, that an engine emits
  for a seed and the bytes fed to it), the two conversions \<open>bytes2int64\<close> and
  \<open>bytes2int128\<close> of \<open>metro.h\<close>, and the UTF-8 encoder of the Python runtime, which
  returns \<open>None\<close> where \<open>PyUnicode_AsUTF8String\<close> fails.
\<close>

record extern =
  mix64 :: "uint64 \<Rightarrow> bytes \<Rightarrow> bytes"
  mix128 :: "uint64 \<Rightarrow> bytes \<Rightarrow> bytes"
  c_bytes2int64 :: "bytes \<Rightarrow> uint64"
  c_bytes2int128 :: "bytes \<Rightarrow> uint64 \<times> uint64"
  PyUnicode_AsUTF8String :: "unicode \<Rightarrow> bytes option"

subsection \<open>The streaming engines\<close>

text \<open>
  Modelled from the spec: the classes \<open>MetroHash64\<close> and \<open>MetroHash128\<close> of
  \<open>metro.h\<close> (here \<open>CCMetroHash64\<close>, \<open>CCMetroHash128\<close>), whose code is not part of
  the wrapper. The spec gives their protocol: the hash state is an accumulator created
  by \<open>initialize(seed)\<close>; \<open>update\<close> feeds bytes to the running state in call order,
  equivalent to concatenating all fed byte spans; \<open>finalize\<close> reads the fixed-size raw
  digest out of the current state. The accumulator is therefore the seed together with
  the bytes fed so far, and the raw digest is the engine's mixing of the two.
\<close>

record CCMetroHash64 =
  seed64 :: uint64
  fed64 :: bytes

definition CCMetroHash64_Initialize :: "uint64 \<Rightarrow> CCMetroHash64" where
  "CCMetroHash64_Initialize seed = \<lparr>seed64 = seed, fed64 = []\<rparr>"

definition CCMetroHash64_Update :: "CCMetroHash64 \<Rightarrow> bytes \<Rightarrow> CCMetroHash64" where
  "CCMetroHash64_Update st buf = st\<lparr>fed64 := fed64 st @ buf\<rparr>"

definition CCMetroHash64_Finalize :: "extern \<Rightarrow> CCMetroHash64 \<Rightarrow> bytes" where
  "CCMetroHash64_Finalize X st = mix64 X (seed64 st) (fed64 st)"

record CCMetroHash128 =
  seed128 :: uint64
  fed128 :: bytes

definition CCMetroHash128_Initialize :: "uint64 \<Rightarrow> CCMetroHash128" where
  "CCMetroHash128_Initialize seed = \<lparr>seed128 = seed, fed128 = []\<rparr>"

definition CCMetroHash128_Update :: "CCMetroHash128 \<Rightarrow> bytes \<Rightarrow> CCMetroHash128" where
  "CCMetroHash128_Update st buf = st\<lparr>fed128 := fed128 st @ buf\<rparr>"

definition CCMetroHash128_Finalize :: "extern \<Rightarrow> CCMetroHash128 \<Rightarrow> bytes" where
  "CCMetroHash128_Finalize X st = mix128 X (seed128 st) (fed128 st)"

text \<open>
  Modelled from the spec: the one-shot functions \<open>metrohash64\<close> and \<open>metrohash128\<close> of
  \<open>metro.h\<close> (here \<open>c_metrohash64\<close>, \<open>c_metrohash128\<close>), declared by the wrapper and
  defined outside it. The spec: feed the entire view in one call to a freshly constructed
  engine seeded with \<open>seed\<close>, and interpret its raw output as one unsigned 64-bit
  integer, or as two 64-bit words.
\<close>

definition c_metrohash64 :: "extern \<Rightarrow> bytes \<Rightarrow> uint64 \<Rightarrow> uint64" where
  "c_metrohash64 X buf seed =
     c_bytes2int64 X
       (CCMetroHash64_Finalize X (CCMetroHash64_Update (CCMetroHash64_Initialize seed) buf))"

definition c_metrohash128 :: "extern \<Rightarrow> bytes \<Rightarrow> uint64 \<Rightarrow> uint64 \<times> uint64" where
  "c_metrohash128 X buf seed =
     c_bytes2int128 X
       (CCMetroHash128_Finalize X (CCMetroHash128_Update (CCMetroHash128_Initialize seed) buf))"

section \<open>The one-shot functions\<close>

text \<open>
  The equations of \<open>metrohash64_result\<close> follow the \<open>if\<close>/\<open>elif\<close> chain that
  assigns \<open>result\<close>: text is encoded first, a byte string is read in place, any other
  object with the buffer interface is asked for a simple view, and everything else
  raises. \<open>metrohash64\<close> returns the \<open>uint64 result\<close> as a Python integer.
\<close>

fun metrohash64_result :: "extern \<Rightarrow> pyobject \<Rightarrow> uint64 \<Rightarrow> pyerror + uint64" where
  "metrohash64_result X (PyUnicode t) seed =
     (case PyUnicode_AsUTF8String X t of
        None \<Rightarrow> Inl UnicodeEncodeError
      | Some obj \<Rightarrow> Inr (c_metrohash64 X obj seed))"
| "metrohash64_result X (PyString s) seed = Inr (c_metrohash64 X s seed)"
| "metrohash64_result X (PyBufferObj n v) seed =
     (case v of
        None \<Rightarrow> Inl BufferError
      | Some buf \<Rightarrow> Inr (c_metrohash64 X buf seed))"
| "metrohash64_result X data seed =
     Inl (type_error ''data'' [''basestring'', ''buffer''] data)"

definition metrohash64 :: "extern \<Rightarrow> pyobject \<Rightarrow> uint64 option \<Rightarrow> pyerror + int" where
  "metrohash64 X data seed =
     (case metrohash64_result X data (seed_arg seed) of
        Inl e \<Rightarrow> Inl e
      | Inr result \<Rightarrow> Inr (uint result))"

text \<open>
  \<open>metrohash128\<close> has the same chain over \<open>c_metrohash128\<close> and ends with
  \<open>final = 0x10000000000000000L * long(result.first) + long(result.second)\<close>.
\<close>

fun metrohash128_result ::
  "extern \<Rightarrow> pyobject \<Rightarrow> uint64 \<Rightarrow> pyerror + uint64 \<times> uint64" where
  "metrohash128_result X (PyUnicode t) seed =
     (case PyUnicode_AsUTF8String X t of
        None \<Rightarrow> Inl UnicodeEncodeError
      | Some obj \<Rightarrow> Inr (c_metrohash128 X obj seed))"
| "metrohash128_result X (PyString s) seed = Inr (c_metrohash128 X s seed)"
| "metrohash128_result X (PyBufferObj n v) seed =
     (case v of
        None \<Rightarrow> Inl BufferError
      | Some buf \<Rightarrow> Inr (c_metrohash128 X buf seed))"
| "metrohash128_result X data seed =
     Inl (type_error ''data'' [''basestring'', ''buffer''] data)"

definition metrohash128 :: "extern \<Rightarrow> pyobject \<Rightarrow> uint64 option \<Rightarrow> pyerror + int" where
  "metrohash128 X data seed =
     (case metrohash128_result X data (seed_arg seed) of
        Inl e \<Rightarrow> Inl e
      | Inr result \<Rightarrow> Inr (0x10000000000000000 * uint (fst result) + uint (snd result)))"

section \<open>The incremental hashers\<close>

text \<open>
  A hasher object owns the engine behind its pointer \<open>_m\<close>; \<open>__cinit__\<close> raises
  \<open>MemoryError\<close> when \<open>new\<close> gives it the null pointer.
\<close>

record MetroHash64 =
  m64 :: CCMetroHash64

text \<open>
  Modelled from the spec: the constructors of the two engines, absent with the rest of
  their classes. The spec has construction call \<open>initialize(seed)\<close> implicitly; the
  flag says whether the allocation succeeded.
\<close>

definition new_CCMetroHash64 :: "bool \<Rightarrow> uint64 \<Rightarrow> CCMetroHash64 option" where
  "new_CCMetroHash64 allocated seed =
     (if allocated then Some (CCMetroHash64_Initialize seed) else None)"

definition MetroHash64_cinit :: "bool \<Rightarrow> uint64 option \<Rightarrow> pyerror + MetroHash64" where
  "MetroHash64_cinit allocated seed =
     (case new_CCMetroHash64 allocated (seed_arg seed) of
        None \<Rightarrow> Inl MemoryError
      | Some p \<Rightarrow> Inr \<lparr>m64 = p\<rparr>)"

definition MetroHash64_initialize :: "MetroHash64 \<Rightarrow> uint64 option \<Rightarrow> MetroHash64" where
  "MetroHash64_initialize self seed = self\<lparr>m64 := CCMetroHash64_Initialize (seed_arg seed)\<rparr>"

text \<open>
  \<open>update\<close> changes the engine in place and may raise: the model returns the exception,
  if any, together with the hasher as the call leaves it.
\<close>

fun MetroHash64_update ::
  "extern \<Rightarrow> MetroHash64 \<Rightarrow> pyobject \<Rightarrow> pyerror option \<times> MetroHash64" where
  "MetroHash64_update X self (PyUnicode t) =
     (case PyUnicode_AsUTF8String X t of
        None \<Rightarrow> (Some UnicodeEncodeError, self)
      | Some obj \<Rightarrow> (None, self\<lparr>m64 := CCMetroHash64_Update (m64 self) obj\<rparr>))"
| "MetroHash64_update X self (PyString s) =
     (None, self\<lparr>m64 := CCMetroHash64_Update (m64 self) s\<rparr>)"
| "MetroHash64_update X self (PyBufferObj n v) =
     (case v of
        None \<Rightarrow> (Some BufferError, self)
      | Some buf \<Rightarrow> (None, self\<lparr>m64 := CCMetroHash64_Update (m64 self) buf\<rparr>))"
| "MetroHash64_update X self data =
     (Some (type_error ''data'' [''basestring'', ''buffer''] data), self)"

definition MetroHash64_intdigest :: "extern \<Rightarrow> MetroHash64 \<Rightarrow> int" where
  "MetroHash64_intdigest X self =
     (let buf = CCMetroHash64_Finalize X (m64 self) in uint (c_bytes2int64 X buf))"

record MetroHash128 =
  m128 :: CCMetroHash128

definition new_CCMetroHash128 :: "bool \<Rightarrow> uint64 \<Rightarrow> CCMetroHash128 option" where
  "new_CCMetroHash128 allocated seed =
     (if allocated then Some (CCMetroHash128_Initialize seed) else None)"

definition MetroHash128_cinit :: "bool \<Rightarrow> uint64 option \<Rightarrow> pyerror + MetroHash128" where
  "MetroHash128_cinit allocated seed =
     (case new_CCMetroHash128 allocated (seed_arg seed) of
        None \<Rightarrow> Inl MemoryError
      | Some p \<Rightarrow> Inr \<lparr>m128 = p\<rparr>)"

definition MetroHash128_initialize :: "MetroHash128 \<Rightarrow> uint64 option \<Rightarrow> MetroHash128" where
  "MetroHash128_initialize self seed =
     self\<lparr>m128 := CCMetroHash128_Initialize (seed_arg seed)\<rparr>"

fun MetroHash128_update ::
  "extern \<Rightarrow> MetroHash128 \<Rightarrow> pyobject \<Rightarrow> pyerror option \<times> MetroHash128" where
  "MetroHash128_update X self (PyUnicode t) =
     (case PyUnicode_AsUTF8String X t of
        None \<Rightarrow> (Some UnicodeEncodeError, self)
      | Some obj \<Rightarrow> (None, self\<lparr>m128 := CCMetroHash128_Update (m128 self) obj\<rparr>))"
| "MetroHash128_update X self (PyString s) =
     (None, self\<lparr>m128 := CCMetroHash128_Update (m128 self) s\<rparr>)"
| "MetroHash128_update X self (PyBufferObj n v) =
     (case v of
        None \<Rightarrow> (Some BufferError, self)
      | Some buf \<Rightarrow> (None, self\<lparr>m128 := CCMetroHash128_Update (m128 self) buf\<rparr>))"
| "MetroHash128_update X self data =
     (Some (type_error ''data'' [''basestring'', ''buffer''] data), self)"

definition MetroHash128_intdigest :: "extern \<Rightarrow> MetroHash128 \<Rightarrow> int" where
  "MetroHash128_intdigest X self =
     (let buf = CCMetroHash128_Finalize X (m128 self);
          result = c_bytes2int128 X buf
      in 0x10000000000000000 * uint (fst result) + uint (snd result))"

subsection \<open>Calling \<open>update\<close> several times\<close>

text \<open>
  A caller that feeds a list of values, one \<open>update\<close> each, in order. An exception ends
  the sequence, as it would end the caller's loop.
\<close>

fun MetroHash64_updates ::
  "extern \<Rightarrow> MetroHash64 \<Rightarrow> pyobject list \<Rightarrow> pyerror option \<times> MetroHash64" where
  "MetroHash64_updates X self [] = (None, self)"
| "MetroHash64_updates X self (d # ds) =
     (case MetroHash64_update X self d of
        (Some e, self') \<Rightarrow> (Some e, self')
      | (None, self') \<Rightarrow> MetroHash64_updates X self' ds)"

fun MetroHash128_updates ::
  "extern \<Rightarrow> MetroHash128 \<Rightarrow> pyobject list \<Rightarrow> pyerror option \<times> MetroHash128" where
  "MetroHash128_updates X self [] = (None, self)"
| "MetroHash128_updates X self (d # ds) =
     (case MetroHash128_update X self d of
        (Some e, self') \<Rightarrow> (Some e, self')
      | (None, self') \<Rightarrow> MetroHash128_updates X self' ds)"

subsection \<open>The bytes an input stands for\<close>

text \<open>
  The four entry points repeat one dispatch. \<open>data_bytes\<close> names what it hands to the
  engine: the encoding of a text, the contents of a byte string, the simple view of a
  buffer object, or the exception raised instead.
\<close>

fun data_bytes :: "extern \<Rightarrow> pyobject \<Rightarrow> pyerror + bytes" where
  "data_bytes X (PyUnicode t) =
     (case PyUnicode_AsUTF8String X t of
        None \<Rightarrow> Inl UnicodeEncodeError
      | Some obj \<Rightarrow> Inr obj)"
| "data_bytes X (PyString s) = Inr s"
| "data_bytes X (PyBufferObj n v) =
     (case v of None \<Rightarrow> Inl BufferError | Some buf \<Rightarrow> Inr buf)"
| "data_bytes X data = Inl (type_error ''data'' [''basestring'', ''buffer''] data)"

section \<open>Reference counts on the text branch of \<open>update\<close>\<close>

text \<open>
  The text branch of \<open>update\<close> once more, with the lifetime of the encoded bytes object
  explicit. Memory maps the address of a live bytes object to its reference count and
  its contents; a freed object has no cell. The runtime's calls do what the C API
  documents: \<open>PyUnicode_AsUTF8String\<close> returns a new reference, which the local
  \<open>obj\<close> holds until the function returns; \<open>PyObject_GetBuffer\<close> on a bytes object
  points the view at the object's contents and takes a reference to the exporter;
  \<open>Py_DECREF\<close> drops one reference and frees the object when none is left.
\<close>

record pymem =
  cells :: "nat \<Rightarrow> (nat \<times> bytes) option"
  fresh :: nat

record Py_buffer =
  buf :: nat
  len :: nat

definition new_bytes :: "bytes \<Rightarrow> pymem \<Rightarrow> nat \<times> pymem" where
  "new_bytes b mem =
     (fresh mem, \<lparr>cells = (cells mem)(fresh mem := Some (1, b)), fresh = Suc (fresh mem)\<rparr>)"

definition PyObject_GetBuffer :: "nat \<Rightarrow> pymem \<Rightarrow> Py_buffer \<times> pymem" where
  "PyObject_GetBuffer obj mem =
     (case cells mem obj of
        None \<Rightarrow> (\<lparr>buf = obj, len = 0\<rparr>, mem)
      | Some (rc, b) \<Rightarrow>
          (\<lparr>buf = obj, len = length b\<rparr>, mem\<lparr>cells := (cells mem)(obj := Some (Suc rc, b))\<rparr>))"

definition Py_DECREF :: "nat \<Rightarrow> pymem \<Rightarrow> pymem" where
  "Py_DECREF obj mem =
     (case cells mem obj of
        None \<Rightarrow> mem
      | Some (rc, b) \<Rightarrow>
          (if rc \<le> 1 then mem\<lparr>cells := (cells mem)(obj := None)\<rparr>
           else mem\<lparr>cells := (cells mem)(obj := Some (rc - 1, b))\<rparr>))"

text \<open>Reading \<open>len\<close> bytes through a view: \<open>None\<close> when the memory it points into is freed.\<close>

definition view_bytes :: "pymem \<Rightarrow> Py_buffer \<Rightarrow> bytes option" where
  "view_bytes mem view =
     (case cells mem (buf view) of
        None \<Rightarrow> None
      | Some (rc, b) \<Rightarrow> Some (take (len view) b))"

text \<open>
  The three statements before the engine's \<open>Update\<close>:
  \<open>obj = PyUnicode_AsUTF8String(data)\<close>, here from the encoding \<open>b\<close>;
  \<open>PyObject_GetBuffer(obj, &buf, PyBUF_SIMPLE)\<close>; \<open>Py_DECREF(obj)\<close>.
  The result is the object, the view and the memory at the moment \<open>Update\<close> is called.
\<close>

definition update_unicode_view :: "bytes \<Rightarrow> pymem \<Rightarrow> nat \<times> Py_buffer \<times> pymem" where
  "update_unicode_view b mem =
     (let (obj, mem1) = new_bytes b mem;
          (view, mem2) = PyObject_GetBuffer obj mem1;
          mem3 = Py_DECREF obj mem2
      in (obj, view, mem3))"

datatype call_end = Returned | Raised pyerror | ReadFreed

text \<open>
  The whole branch: the engine reads the bytes through the view, and the function's
  exit releases the reference that \<open>obj\<close> held. \<open>ReadFreed\<close> is the engine reading
  memory that has been freed.
\<close>

definition MetroHash64_update_unicode ::
  "extern \<Rightarrow> MetroHash64 \<Rightarrow> unicode \<Rightarrow> pymem \<Rightarrow> call_end \<times> MetroHash64 \<times> pymem" where
  "MetroHash64_update_unicode X self t mem =
     (case PyUnicode_AsUTF8String X t of
        None \<Rightarrow> (Raised UnicodeEncodeError, self, mem)
      | Some b \<Rightarrow>
          (let (obj, view, mem3) = update_unicode_view b mem
           in case view_bytes mem3 view of
                None \<Rightarrow> (ReadFreed, self, Py_DECREF obj mem3)
              | Some bs \<Rightarrow>
                  (Returned, self\<lparr>m64 := CCMetroHash64_Update (m64 self) bs\<rparr>,
                   Py_DECREF obj mem3)))"

definition MetroHash128_update_unicode ::
  "extern \<Rightarrow> MetroHash128 \<Rightarrow> unicode \<Rightarrow> pymem \<Rightarrow> call_end \<times> MetroHash128 \<times> pymem" where
  "MetroHash128_update_unicode X self t mem =
     (case PyUnicode_AsUTF8String X t of
        None \<Rightarrow> (Raised UnicodeEncodeError, self, mem)
      | Some b \<Rightarrow>
          (let (obj, view, mem3) = update_unicode_view b mem
           in case view_bytes mem3 view of
                None \<Rightarrow> (ReadFreed, self, Py_DECREF obj mem3)
              | Some bs \<Rightarrow>
                  (Returned, self\<lparr>m128 := CCMetroHash128_Update (m128 self) bs\<rparr>,
                   Py_DECREF obj mem3)))"

section \<open>Wide-integer assembly, as the spec words it\<close>

text \<open>
  The spec's \<open>assemble128(high, low)\<close>: \<open>high * 2^64 + low\<close>. The wrapper has no
  function of that name; it writes the sum out at both places.
\<close>

definition assemble128 :: "uint64 \<Rightarrow> uint64 \<Rightarrow> int" where
  "assemble128 high low = uint high * 2 ^ 64 + uint low"

section \<open>An instance of the collaborators\<close>

text \<open>
  One concrete choice of the parameters, for closed examples: a multiply-and-add mixing
  written out as little-endian bytes, the little-endian conversions, and an encoder
  that accepts ASCII text only.
\<close>

fun demo_bytes2int64 :: "bytes \<Rightarrow> uint64" where
  "demo_bytes2int64 [] = 0"
| "demo_bytes2int64 (b # bs) = ucast b + 256 * demo_bytes2int64 bs"

definition demo_bytes :: "uint64 \<Rightarrow> bytes" where
  "demo_bytes h = map (\<lambda>i. ucast (drop_bit (8 * i) h)) [0, 1, 2, 3, 4, 5, 6, 7]"

definition demo_mix64 :: "uint64 \<Rightarrow> bytes \<Rightarrow> bytes" where
  "demo_mix64 seed b = demo_bytes (fold (\<lambda>x h. 31 * h + ucast x) b seed)"

definition demo_mix128 :: "uint64 \<Rightarrow> bytes \<Rightarrow> bytes" where
  "demo_mix128 seed b =
     demo_bytes (fold (\<lambda>x h. 31 * h + ucast x) b seed) @
     demo_bytes (fold (\<lambda>x h. 33 * h + ucast x) b (seed + 1))"

definition demo_utf8 :: "unicode \<Rightarrow> bytes option" where
  "demo_utf8 t = (if list_all (\<lambda>c. c < 128) t then Some (map of_nat t) else None)"

definition demo :: extern where
  "demo = \<lparr>mix64 = demo_mix64, mix128 = demo_mix128, c_bytes2int64 = demo_bytes2int64,
           c_bytes2int128 = (\<lambda>bs. (demo_bytes2int64 (take 8 bs), demo_bytes2int64 (drop 8 bs))),
           PyUnicode_AsUTF8String = demo_utf8\<rparr>"

definition empty_mem :: pymem where
  "empty_mem = \<lparr>cells = (\<lambda>a. None), fresh = 0\<rparr>"

lemmas demo_defs =
  demo_def demo_mix64_def demo_mix128_def demo_bytes_def demo_utf8_def empty_mem_def
  seed_arg_def type_error_def
  c_metrohash64_def c_metrohash128_def metrohash64_def metrohash128_def
  CCMetroHash64_Initialize_def CCMetroHash64_Update_def CCMetroHash64_Finalize_def
  CCMetroHash128_Initialize_def CCMetroHash128_Update_def CCMetroHash128_Finalize_def
  new_CCMetroHash64_def MetroHash64_cinit_def MetroHash64_initialize_def
  MetroHash64_intdigest_def
  new_CCMetroHash128_def MetroHash128_cinit_def MetroHash128_initialize_def
  MetroHash128_intdigest_def

section \<open>What the entry points hand to the engine\<close>

lemma metrohash64_result_bytes:
  "metrohash64_result X data seed =
     (case data_bytes X data of Inl e \<Rightarrow> Inl e | Inr b \<Rightarrow> Inr (c_metrohash64 X b seed))"
  by (cases data) (simp_all split: option.splits)

lemma metrohash128_result_bytes:
  "metrohash128_result X data seed =
     (case data_bytes X data of Inl e \<Rightarrow> Inl e | Inr b \<Rightarrow> Inr (c_metrohash128 X b seed))"
  by (cases data) (simp_all split: option.splits)

lemma MetroHash64_update_bytes:
  "MetroHash64_update X self data =
     (case data_bytes X data of
        Inl e \<Rightarrow> (Some e, self)
      | Inr b \<Rightarrow> (None, self\<lparr>m64 := CCMetroHash64_Update (m64 self) b\<rparr>))"
  by (cases data) (simp_all split: option.splits)

lemma MetroHash128_update_bytes:
  "MetroHash128_update X self data =
     (case data_bytes X data of
        Inl e \<Rightarrow> (Some e, self)
      | Inr b \<Rightarrow> (None, self\<lparr>m128 := CCMetroHash128_Update (m128 self) b\<rparr>))"
  by (cases data) (simp_all split: option.splits)

lemma CCMetroHash64_Update_Nil: "CCMetroHash64_Update st [] = st"
  by (simp add: CCMetroHash64_Update_def)

lemma CCMetroHash64_Update_Update:
  "CCMetroHash64_Update (CCMetroHash64_Update st a) b = CCMetroHash64_Update st (a @ b)"
  by (simp add: CCMetroHash64_Update_def)

lemma CCMetroHash128_Update_Nil: "CCMetroHash128_Update st [] = st"
  by (simp add: CCMetroHash128_Update_def)

lemma CCMetroHash128_Update_Update:
  "CCMetroHash128_Update (CCMetroHash128_Update st a) b = CCMetroHash128_Update st (a @ b)"
  by (simp add: CCMetroHash128_Update_def)

lemma MetroHash64_updates_strings:
  "MetroHash64_updates X self (map PyString chunks) =
     (None, self\<lparr>m64 := CCMetroHash64_Update (m64 self) (concat chunks)\<rparr>)"
proof (induction chunks arbitrary: self)
  case Nil
  show ?case by (simp add: CCMetroHash64_Update_Nil)
next
  case (Cons c cs)
  show ?case by (simp add: Cons.IH CCMetroHash64_Update_Update)
qed

lemma MetroHash128_updates_strings:
  "MetroHash128_updates X self (map PyString chunks) =
     (None, self\<lparr>m128 := CCMetroHash128_Update (m128 self) (concat chunks)\<rparr>)"
proof (induction chunks arbitrary: self)
  case Nil
  show ?case by (simp add: CCMetroHash128_Update_Nil)
next
  case (Cons c cs)
  show ?case by (simp add: Cons.IH CCMetroHash128_Update_Update)
qed

lemma MetroHash128_intdigest_pair:
  "MetroHash128_intdigest X self =
     0x10000000000000000 * uint (fst (c_bytes2int128 X (CCMetroHash128_Finalize X (m128 self))))
       + uint (snd (c_bytes2int128 X (CCMetroHash128_Finalize X (m128 self))))"
  by (simp add: MetroHash128_intdigest_def Let_def)

lemma metrohash64_bytes:
  "data_bytes X data = Inr b \<Longrightarrow>
     metrohash64 X data seed = Inr (uint (c_metrohash64 X b (seed_arg seed)))"
  by (simp add: metrohash64_def metrohash64_result_bytes)

lemma metrohash128_bytes:
  "data_bytes X data = Inr b \<Longrightarrow>
     metrohash128 X data seed =
       Inr (0x10000000000000000 * uint (fst (c_metrohash128 X b (seed_arg seed)))
              + uint (snd (c_metrohash128 X b (seed_arg seed))))"
  by (simp add: metrohash128_def metrohash128_result_bytes)



lemma MetroHash64_cinit_True:
  "MetroHash64_cinit True seed = Inr h \<longleftrightarrow> h = \<lparr>m64 = CCMetroHash64_Initialize (seed_arg seed)\<rparr>"
  by (auto simp add: MetroHash64_cinit_def new_CCMetroHash64_def)

lemma MetroHash128_cinit_True:
  "MetroHash128_cinit True seed = Inr h \<longleftrightarrow> h = \<lparr>m128 = CCMetroHash128_Initialize (seed_arg seed)\<rparr>"
  by (auto simp add: MetroHash128_cinit_def new_CCMetroHash128_def)

lemma MetroHash64_digest_of_strings:
  "MetroHash64_intdigest X
     (snd (MetroHash64_updates X \<lparr>m64 = CCMetroHash64_Initialize s\<rparr> (map PyString chunks)))
   = uint (c_metrohash64 X (concat chunks) s)"
  by (simp add: MetroHash64_updates_strings MetroHash64_intdigest_def c_metrohash64_def)

lemma MetroHash128_digest_of_strings:
  "MetroHash128_intdigest X
     (snd (MetroHash128_updates X \<lparr>m128 = CCMetroHash128_Initialize s\<rparr> (map PyString chunks)))
   = 0x10000000000000000 * uint (fst (c_metrohash128 X (concat chunks) s))
       + uint (snd (c_metrohash128 X (concat chunks) s))"
  by (simp add: MetroHash128_updates_strings MetroHash128_intdigest_pair c_metrohash128_def)

lemma uint64_pair_bounds:
  fixes hi lo :: uint64
  shows "0 \<le> 0x10000000000000000 * uint hi + uint lo"
    and "0x10000000000000000 * uint hi + uint lo < 2 ^ 128"
    and "(0x10000000000000000 * uint hi + uint lo) div 2 ^ 64 = uint hi"
    and "(0x10000000000000000 * uint hi + uint lo) mod 2 ^ 64 = uint lo"
proof -
  have hi: "0 \<le> uint hi" "uint hi < 2 ^ 64" and lo: "0 \<le> uint lo" "uint lo < 2 ^ 64"
    using uint_lt2p [of hi] uint_lt2p [of lo] by simp_all
  show "0 \<le> 0x10000000000000000 * uint hi + uint lo" using hi lo by simp
  have "0x10000000000000000 * uint hi \<le> 0x10000000000000000 * (2 ^ 64 - 1)"
    using hi by simp
  then show "0x10000000000000000 * uint hi + uint lo < 2 ^ 128" using lo by simp
  have e: "(0x10000000000000000 :: int) = 2 ^ 64" by simp
  show "(0x10000000000000000 * uint hi + uint lo) div 2 ^ 64 = uint hi"
    unfolding e using lo by simp
  show "(0x10000000000000000 * uint hi + uint lo) mod 2 ^ 64 = uint lo"
    unfolding e using lo by simp
qed

lemma MetroHash64_updates_append:
  "MetroHash64_updates X self (xs @ ys) =
     (case MetroHash64_updates X self xs of
        (Some e, self') \<Rightarrow> (Some e, self')
      | (None, self') \<Rightarrow> MetroHash64_updates X self' ys)"
  by (induction xs arbitrary: self) (auto split: prod.splits option.splits)

lemma MetroHash128_updates_append:
  "MetroHash128_updates X self (xs @ ys) =
     (case MetroHash128_updates X self xs of
        (Some e, self') \<Rightarrow> (Some e, self')
      | (None, self') \<Rightarrow> MetroHash128_updates X self' ys)"
  by (induction xs arbitrary: self) (auto split: prod.splits option.splits)

lemma MetroHash64_update_empty:
  "data_bytes X d = Inr [] \<Longrightarrow> MetroHash64_update X self d = (None, self)"
  by (simp add: MetroHash64_update_bytes CCMetroHash64_Update_Nil)

lemma MetroHash128_update_empty:
  "data_bytes X d = Inr [] \<Longrightarrow> MetroHash128_update X self d = (None, self)"
  by (simp add: MetroHash128_update_bytes CCMetroHash128_Update_Nil)

lemma MetroHash64_updates_skip:
  "data_bytes X d = Inr [] \<Longrightarrow>
     MetroHash64_updates X self (xs @ d # ys) = MetroHash64_updates X self (xs @ ys)"
  by (simp add: MetroHash64_updates_append MetroHash64_update_empty
      split: prod.splits option.splits)

lemma MetroHash128_updates_skip:
  "data_bytes X d = Inr [] \<Longrightarrow>
     MetroHash128_updates X self (xs @ d # ys) = MetroHash128_updates X self (xs @ ys)"
  by (simp add: MetroHash128_updates_append MetroHash128_update_empty
      split: prod.splits option.splits)


lemma update_unicode_view_eq:
  "update_unicode_view b mem =
     (fresh mem, \<lparr>buf = fresh mem, len = length b\<rparr>,
      \<lparr>cells = (cells mem)(fresh mem := Some (1, b)), fresh = Suc (fresh mem)\<rparr>)"
  by (simp add: update_unicode_view_def new_bytes_def PyObject_GetBuffer_def Py_DECREF_def)

section \<open>The claims\<close>

text \<open>
  C1 (chunking invariance). For every seed \<open>s\<close> and every list of byte chunks, a hasher
  constructed with \<open>s\<close> and fed the chunks one \<open>update\<close> each, in order, raises nothing
  and has the digest that the one-shot function returns for the concatenation of the
  chunks with seed \<open>s\<close>; for the 64-bit pair and for the 128-bit pair.
\<close>

theorem chunking_invariance:
  assumes "MetroHash64_cinit True (Some s) = Inr h64"
    and "MetroHash128_cinit True (Some s) = Inr h128"
  shows "fst (MetroHash64_updates X h64 (map PyString chunks)) = None
     \<and> Inr (MetroHash64_intdigest X (snd (MetroHash64_updates X h64 (map PyString chunks))))
         = metrohash64 X (PyString (concat chunks)) (Some s)
     \<and> fst (MetroHash128_updates X h128 (map PyString chunks)) = None
     \<and> Inr (MetroHash128_intdigest X (snd (MetroHash128_updates X h128 (map PyString chunks))))
         = metrohash128 X (PyString (concat chunks)) (Some s)"
proof -
  have h64: "h64 = \<lparr>m64 = CCMetroHash64_Initialize s\<rparr>"
    using assms(1) by (simp add: MetroHash64_cinit_True seed_arg_def)
  have h128: "h128 = \<lparr>m128 = CCMetroHash128_Initialize s\<rparr>"
    using assms(2) by (simp add: MetroHash128_cinit_True seed_arg_def)
  have "fst (MetroHash64_updates X h64 (map PyString chunks)) = None"
    by (simp add: MetroHash64_updates_strings)
  moreover have "Inr (MetroHash64_intdigest X (snd (MetroHash64_updates X h64 (map PyString chunks))))
         = metrohash64 X (PyString (concat chunks)) (Some s)"
    unfolding h64 MetroHash64_digest_of_strings by (simp add: metrohash64_bytes seed_arg_def)
  moreover have "fst (MetroHash128_updates X h128 (map PyString chunks)) = None"
    by (simp add: MetroHash128_updates_strings)
  moreover have "Inr (MetroHash128_intdigest X (snd (MetroHash128_updates X h128 (map PyString chunks))))
         = metrohash128 X (PyString (concat chunks)) (Some s)"
    unfolding h128 MetroHash128_digest_of_strings by (simp add: metrohash128_bytes seed_arg_def)
  ultimately show ?thesis by simp
qed

text \<open>C1 at seed 5 and the chunks \<open>[1]\<close>, \<open>[]\<close>, \<open>[2, 3]\<close>.\<close>

theorem chunking_invariance_witness:
  "MetroHash64_cinit True (Some 5) = Inr \<lparr>m64 = \<lparr>seed64 = 5, fed64 = []\<rparr>\<rparr>
   \<and> MetroHash128_cinit True (Some 5) = Inr \<lparr>m128 = \<lparr>seed128 = 5, fed128 = []\<rparr>\<rparr>
   \<and> MetroHash64_intdigest demo
        (snd (MetroHash64_updates demo \<lparr>m64 = \<lparr>seed64 = 5, fed64 = []\<rparr>\<rparr>
           [PyString [1], PyString [], PyString [2, 3]])) = 149981
   \<and> metrohash64 demo (PyString [1, 2, 3]) (Some 5) = Inr 149981
   \<and> MetroHash128_intdigest demo
        (snd (MetroHash128_updates demo \<lparr>m128 = \<lparr>seed128 = 5, fed128 = []\<rparr>\<rparr>
           [PyString [1], PyString [], PyString [2, 3]])) = 2766661122919032261136076
   \<and> metrohash128 demo (PyString [1, 2, 3]) (Some 5) = Inr 2766661122919032261136076"
proof -
  have a: "MetroHash64_cinit True (Some 5) = Inr \<lparr>m64 = \<lparr>seed64 = 5, fed64 = []\<rparr>\<rparr>"
    by (simp add: demo_defs)
  have b: "MetroHash128_cinit True (Some 5) = Inr \<lparr>m128 = \<lparr>seed128 = 5, fed128 = []\<rparr>\<rparr>"
    by (simp add: demo_defs)
  have c: "metrohash64 demo (PyString [1, 2, 3]) (Some 5) = Inr 149981"
    by (simp add: demo_defs)
  have d: "metrohash128 demo (PyString [1, 2, 3]) (Some 5) = Inr 2766661122919032261136076"
    by (simp add: demo_defs)
  show ?thesis
    using chunking_invariance [OF a b, of demo "[[1], [], [2, 3]]"] a b c d by simp
qed

text \<open>
  C2 (128-bit composition). For every input that stands for bytes \<open>b\<close> and every seed,
  when the 128-bit primitive's pair for \<open>b\<close> has the words \<open>first\<close> and \<open>second\<close>,
  \<open>metrohash128\<close> returns \<open>first * 2^64 + second\<close>: \<open>first\<close> is the high word of
  the result and \<open>second\<close> its low word.
\<close>

theorem metrohash128_high_low:
  assumes "data_bytes X data = Inr b"
    and "c_metrohash128 X b (seed_arg seed) = (first, second)"
  shows "metrohash128 X data seed = Inr (uint first * 2 ^ 64 + uint second)
     \<and> (uint first * 2 ^ 64 + uint second) div 2 ^ 64 = uint first
     \<and> (uint first * 2 ^ 64 + uint second) mod 2 ^ 64 = uint second"
  using uint64_pair_bounds(3,4) [of first second] metrohash128_bytes [OF assms(1), of seed]
  by (simp add: assms(2) mult.commute)

text \<open>C2 at the text \<open>AB\<close> with the default seed.\<close>

theorem metrohash128_high_low_witness:
  "data_bytes demo (PyUnicode [65, 66]) = Inr [65, 66]
   \<and> c_metrohash128 demo [65, 66] (seed_arg None) = (2081, 3300)
   \<and> metrohash128 demo (PyUnicode [65, 66]) None = Inr (2081 * 2 ^ 64 + 3300)"
proof -
  have a: "data_bytes demo (PyUnicode [65, 66]) = Inr [65, 66]"
    by (simp add: demo_defs)
  have b: "c_metrohash128 demo [65, 66] (seed_arg None) = (2081, 3300)"
    by (simp add: demo_defs)
  show ?thesis
    using metrohash128_high_low [OF a b] a b by simp
qed

text \<open>
  C3 (the encoded buffer outlives the hashing call). For every text fed to \<open>update\<close>
  whose encoding succeeds, at the moment the engine's \<open>Update\<close> is called the bytes
  object holding the encoding is still alive: one reference to it is left, the view
  points into it, and reading through the view gives the encoding. The call returns with
  the hasher that the text branch of \<open>update\<close> yields, and the object is released only
  at the function's exit; for \<open>MetroHash64.update\<close> and \<open>MetroHash128.update\<close>.
\<close>

theorem update_unicode_buffer_alive:
  assumes "PyUnicode_AsUTF8String X t = Some b"
    and "update_unicode_view b mem = (obj, view, mem3)"
  shows "cells mem3 obj = Some (1, b)
     \<and> buf view = obj
     \<and> view_bytes mem3 view = Some b
     \<and> MetroHash64_update_unicode X self64 t mem =
         (Returned, snd (MetroHash64_update X self64 (PyUnicode t)), Py_DECREF obj mem3)
     \<and> MetroHash128_update_unicode X self128 t mem =
         (Returned, snd (MetroHash128_update X self128 (PyUnicode t)), Py_DECREF obj mem3)
     \<and> cells (Py_DECREF obj mem3) obj = None"
proof -
  have v: "obj = fresh mem" "view = \<lparr>buf = fresh mem, len = length b\<rparr>"
    "mem3 = \<lparr>cells = (cells mem)(fresh mem := Some (1, b)), fresh = Suc (fresh mem)\<rparr>"
    using assms(2) by (auto simp add: update_unicode_view_eq)
  have alive: "cells mem3 obj = Some (1, b)" and ptr: "buf view = obj"
    by (simp_all add: v)
  have rd: "view_bytes mem3 view = Some b"
    by (simp add: view_bytes_def v)
  have u64: "MetroHash64_update_unicode X self64 t mem =
         (Returned, snd (MetroHash64_update X self64 (PyUnicode t)), Py_DECREF obj mem3)"
    by (simp add: MetroHash64_update_unicode_def assms rd)
  have u128: "MetroHash128_update_unicode X self128 t mem =
         (Returned, snd (MetroHash128_update X self128 (PyUnicode t)), Py_DECREF obj mem3)"
    by (simp add: MetroHash128_update_unicode_def assms rd)
  have freed: "cells (Py_DECREF obj mem3) obj = None"
    by (simp add: Py_DECREF_def alive)
  show ?thesis using alive ptr rd u64 u128 freed by simp
qed

text \<open>C3 at the text \<open>Hi\<close> in an empty memory.\<close>

theorem update_unicode_buffer_alive_witness:
  "PyUnicode_AsUTF8String demo [72, 105] = Some [72, 105]
   \<and> update_unicode_view [72, 105] empty_mem =
       (0, \<lparr>buf = 0, len = 2\<rparr>, \<lparr>cells = (\<lambda>a. None)(0 := Some (1, [72, 105])), fresh = 1\<rparr>)
   \<and> fst (MetroHash64_update_unicode demo \<lparr>m64 = \<lparr>seed64 = 0, fed64 = [1]\<rparr>\<rparr> [72, 105] empty_mem)
       = Returned
   \<and> fst (snd (MetroHash64_update_unicode demo \<lparr>m64 = \<lparr>seed64 = 0, fed64 = [1]\<rparr>\<rparr> [72, 105] empty_mem))
       = \<lparr>m64 = \<lparr>seed64 = 0, fed64 = [1, 72, 105]\<rparr>\<rparr>"
proof -
  have a: "PyUnicode_AsUTF8String demo [72, 105] = Some [72, 105]"
    by (simp add: demo_defs)
  have b: "update_unicode_view [72, 105] empty_mem =
       (0, \<lparr>buf = 0, len = 2\<rparr>, \<lparr>cells = (\<lambda>a. None)(0 := Some (1, [72, 105])), fresh = 1\<rparr>)"
    by (simp add: update_unicode_view_eq empty_mem_def)
  show ?thesis
    using update_unicode_buffer_alive [OF a b, of "\<lparr>m64 = \<lparr>seed64 = 0, fed64 = [1]\<rparr>\<rparr>"] a b
    by (simp add: demo_defs)
qed

text \<open>
  C4 (seed after \<open>initialize\<close> without an argument), as stated: the construction
  seed would be used again. A hasher constructed with seed 1, reset by \<open>initialize()\<close>
  and fed the byte 2 is in the state of seed 0, and under the instance above its digest
  is 2, where a fresh hasher with seed 1 fed the same byte has 33.
\<close>

theorem initialize_reuses_seed_counterexample:
  "MetroHash64_cinit True (Some 1) = Inr \<lparr>m64 = \<lparr>seed64 = 1, fed64 = []\<rparr>\<rparr>
   \<and> MetroHash64_initialize \<lparr>m64 = \<lparr>seed64 = 1, fed64 = []\<rparr>\<rparr> None
       = \<lparr>m64 = \<lparr>seed64 = 0, fed64 = []\<rparr>\<rparr>
   \<and> MetroHash64_intdigest demo (snd (MetroHash64_updates demo
         (MetroHash64_initialize \<lparr>m64 = \<lparr>seed64 = 1, fed64 = []\<rparr>\<rparr> None) [PyString [2]])) = 2
   \<and> MetroHash64_intdigest demo (snd (MetroHash64_updates demo
         \<lparr>m64 = \<lparr>seed64 = 1, fed64 = []\<rparr>\<rparr> [PyString [2]])) = 33
   \<and> MetroHash64_intdigest demo (snd (MetroHash64_updates demo
         (MetroHash64_initialize \<lparr>m64 = \<lparr>seed64 = 1, fed64 = []\<rparr>\<rparr> None) [PyString [2]]))
     \<noteq> MetroHash64_intdigest demo (snd (MetroHash64_updates demo
         \<lparr>m64 = \<lparr>seed64 = 1, fed64 = []\<rparr>\<rparr> [PyString [2]]))"
  by (simp add: demo_defs)

text \<open>
  C4, amended. For every hasher constructed with seed \<open>s\<close>, whatever it has been fed,
  \<open>initialize\<close> with no seed argument resets it to seed zero: it is then the fresh
  hasher of seed 0, and any updates after the reset give the digest they give on that
  fresh hasher. \<open>initialize(s)\<close>, with the seed passed, gives the fresh hasher of seed
  \<open>s\<close>. On construction and in the one-shot functions the seed defaults to zero.
\<close>

theorem initialize_default_seed:
  assumes "MetroHash64_cinit True (Some s) = Inr h64"
    and "MetroHash128_cinit True (Some s) = Inr h128"
    and "MetroHash64_cinit True (Some 0) = Inr z64"
    and "MetroHash128_cinit True (Some 0) = Inr z128"
  shows "MetroHash64_initialize (snd (MetroHash64_updates X h64 prior)) None = z64
     \<and> MetroHash128_initialize (snd (MetroHash128_updates X h128 prior)) None = z128
     \<and> MetroHash64_intdigest X (snd (MetroHash64_updates X
           (MetroHash64_initialize (snd (MetroHash64_updates X h64 prior)) None) ds))
         = MetroHash64_intdigest X (snd (MetroHash64_updates X z64 ds))
     \<and> MetroHash128_intdigest X (snd (MetroHash128_updates X
           (MetroHash128_initialize (snd (MetroHash128_updates X h128 prior)) None) ds))
         = MetroHash128_intdigest X (snd (MetroHash128_updates X z128 ds))
     \<and> MetroHash64_initialize (snd (MetroHash64_updates X h64 prior)) (Some s) = h64
     \<and> MetroHash128_initialize (snd (MetroHash128_updates X h128 prior)) (Some s) = h128
     \<and> MetroHash64_cinit a None = MetroHash64_cinit a (Some 0)
     \<and> MetroHash128_cinit a None = MetroHash128_cinit a (Some 0)
     \<and> metrohash64 X data None = metrohash64 X data (Some 0)
     \<and> metrohash128 X data None = metrohash128 X data (Some 0)"
proof -
  have h64: "h64 = \<lparr>m64 = CCMetroHash64_Initialize s\<rparr>"
    using assms(1) by (simp add: MetroHash64_cinit_True seed_arg_def)
  have h128: "h128 = \<lparr>m128 = CCMetroHash128_Initialize s\<rparr>"
    using assms(2) by (simp add: MetroHash128_cinit_True seed_arg_def)
  have z64: "z64 = \<lparr>m64 = CCMetroHash64_Initialize 0\<rparr>"
    using assms(3) by (simp add: MetroHash64_cinit_True seed_arg_def)
  have z128: "z128 = \<lparr>m128 = CCMetroHash128_Initialize 0\<rparr>"
    using assms(4) by (simp add: MetroHash128_cinit_True seed_arg_def)
  have i64: "MetroHash64_initialize g64 None = z64" for g64
    by (simp add: MetroHash64_initialize_def seed_arg_def z64)
  have i128: "MetroHash128_initialize g128 None = z128" for g128
    by (simp add: MetroHash128_initialize_def seed_arg_def z128)
  have j64: "MetroHash64_initialize g64 (Some s) = h64" for g64
    by (simp add: MetroHash64_initialize_def seed_arg_def h64)
  have j128: "MetroHash128_initialize g128 (Some s) = h128" for g128
    by (simp add: MetroHash128_initialize_def seed_arg_def h128)
  have d: "MetroHash64_cinit a None = MetroHash64_cinit a (Some 0)"
    "MetroHash128_cinit a None = MetroHash128_cinit a (Some 0)"
    "metrohash64 X data None = metrohash64 X data (Some 0)"
    "metrohash128 X data None = metrohash128 X data (Some 0)"
    by (simp_all add: MetroHash64_cinit_def MetroHash128_cinit_def metrohash64_def
        metrohash128_def seed_arg_def)
  show ?thesis
    unfolding i64 i128 j64 j128 using d by simp
qed

text \<open>C4, amended, at seed 1 after one update.\<close>

theorem initialize_default_seed_witness:
  "MetroHash64_cinit True (Some 1) = Inr \<lparr>m64 = \<lparr>seed64 = 1, fed64 = []\<rparr>\<rparr>
   \<and> MetroHash128_cinit True (Some 1) = Inr \<lparr>m128 = \<lparr>seed128 = 1, fed128 = []\<rparr>\<rparr>
   \<and> MetroHash64_cinit True (Some 0) = Inr \<lparr>m64 = \<lparr>seed64 = 0, fed64 = []\<rparr>\<rparr>
   \<and> MetroHash128_cinit True (Some 0) = Inr \<lparr>m128 = \<lparr>seed128 = 0, fed128 = []\<rparr>\<rparr>
   \<and> MetroHash64_initialize
        (snd (MetroHash64_updates demo \<lparr>m64 = \<lparr>seed64 = 1, fed64 = []\<rparr>\<rparr> [PyString [9]])) None
       = \<lparr>m64 = \<lparr>seed64 = 0, fed64 = []\<rparr>\<rparr>
   \<and> MetroHash64_initialize
        (snd (MetroHash64_updates demo \<lparr>m64 = \<lparr>seed64 = 1, fed64 = []\<rparr>\<rparr> [PyString [9]])) (Some 1)
       = \<lparr>m64 = \<lparr>seed64 = 1, fed64 = []\<rparr>\<rparr>"
proof -
  have a: "MetroHash64_cinit True (Some 1) = Inr \<lparr>m64 = \<lparr>seed64 = 1, fed64 = []\<rparr>\<rparr>"
    by (simp add: demo_defs)
  have b: "MetroHash128_cinit True (Some 1) = Inr \<lparr>m128 = \<lparr>seed128 = 1, fed128 = []\<rparr>\<rparr>"
    by (simp add: demo_defs)
  have c: "MetroHash64_cinit True (Some 0) = Inr \<lparr>m64 = \<lparr>seed64 = 0, fed64 = []\<rparr>\<rparr>"
    by (simp add: demo_defs)
  have d: "MetroHash128_cinit True (Some 0) = Inr \<lparr>m128 = \<lparr>seed128 = 0, fed128 = []\<rparr>\<rparr>"
    by (simp add: demo_defs)
  show ?thesis
    using initialize_default_seed [OF a b c d, of demo "[PyString [9]]"] a b c d by simp
qed




text \<open>
  C6 (text/byte equivalence). For every text \<open>t\<close> whose UTF-8 encoding is \<open>b\<close> and
  every seed, hashing \<open>t\<close> is hashing \<open>b\<close>: the same result from \<open>metrohash64\<close>,
  from \<open>metrohash128\<close>, and the same effect of \<open>update\<close> on either hasher.
\<close>

theorem text_byte_equivalence:
  assumes "PyUnicode_AsUTF8String X t = Some b"
  shows "metrohash64 X (PyUnicode t) seed = metrohash64 X (PyString b) seed
     \<and> metrohash128 X (PyUnicode t) seed = metrohash128 X (PyString b) seed
     \<and> MetroHash64_update X self64 (PyUnicode t) = MetroHash64_update X self64 (PyString b)
     \<and> MetroHash128_update X self128 (PyUnicode t) = MetroHash128_update X self128 (PyString b)"
  using assms by (simp add: metrohash64_def metrohash128_def)

text \<open>C6 at the text \<open>Hi\<close> with seed 2.\<close>

theorem text_byte_equivalence_witness:
  "PyUnicode_AsUTF8String demo [72, 105] = Some [72, 105]
   \<and> metrohash64 demo (PyUnicode [72, 105]) (Some 2) = Inr 4259
   \<and> metrohash64 demo (PyString [72, 105]) (Some 2) = Inr 4259"
proof -
  have a: "PyUnicode_AsUTF8String demo [72, 105] = Some [72, 105]"
    by (simp add: demo_defs)
  have b: "metrohash64 demo (PyString [72, 105]) (Some 2) = Inr 4259"
    by (simp add: demo_defs)
  show ?thesis
    using text_byte_equivalence [OF a, of "Some 2"] a b by simp
qed

text \<open>
  C7 (reset correctness). For every hasher with any prior updates, after
  \<open>initialize(s)\<close> and any list of byte chunks fed one \<open>update\<close> each, the digest is
  the one-shot hash, with seed \<open>s\<close>, of the bytes fed after the reset alone; for both
  widths.
\<close>

theorem reset_correctness:
  "fst (MetroHash64_updates X
          (MetroHash64_initialize (snd (MetroHash64_updates X h64 prior)) (Some s))
          (map PyString chunks)) = None
   \<and> Inr (MetroHash64_intdigest X (snd (MetroHash64_updates X
          (MetroHash64_initialize (snd (MetroHash64_updates X h64 prior)) (Some s))
          (map PyString chunks))))
       = metrohash64 X (PyString (concat chunks)) (Some s)
   \<and> fst (MetroHash128_updates X
          (MetroHash128_initialize (snd (MetroHash128_updates X h128 prior)) (Some s))
          (map PyString chunks)) = None
   \<and> Inr (MetroHash128_intdigest X (snd (MetroHash128_updates X
          (MetroHash128_initialize (snd (MetroHash128_updates X h128 prior)) (Some s))
          (map PyString chunks))))
       = metrohash128 X (PyString (concat chunks)) (Some s)"
proof -
  have i64: "MetroHash64_initialize g64 (Some s) = \<lparr>m64 = CCMetroHash64_Initialize s\<rparr>" for g64
    by (simp add: MetroHash64_initialize_def seed_arg_def)
  have i128: "MetroHash128_initialize g128 (Some s) = \<lparr>m128 = CCMetroHash128_Initialize s\<rparr>"
    for g128
    by (simp add: MetroHash128_initialize_def seed_arg_def)
  have a: "Inr (MetroHash64_intdigest X (snd (MetroHash64_updates X
          \<lparr>m64 = CCMetroHash64_Initialize s\<rparr> (map PyString chunks))))
       = metrohash64 X (PyString (concat chunks)) (Some s)"
    unfolding MetroHash64_digest_of_strings by (simp add: metrohash64_bytes seed_arg_def)
  have b: "Inr (MetroHash128_intdigest X (snd (MetroHash128_updates X
          \<lparr>m128 = CCMetroHash128_Initialize s\<rparr> (map PyString chunks))))
       = metrohash128 X (PyString (concat chunks)) (Some s)"
    unfolding MetroHash128_digest_of_strings by (simp add: metrohash128_bytes seed_arg_def)
  show ?thesis
    unfolding i64 i128 using a b
    by (simp add: MetroHash64_updates_strings MetroHash128_updates_strings)
qed

text \<open>C7 at a hasher of seed 9 fed two bytes, reset to seed 5 and fed \<open>[1]\<close>, \<open>[2, 3]\<close>.\<close>

theorem reset_correctness_witness:
  "MetroHash64_intdigest demo (snd (MetroHash64_updates demo
      (MetroHash64_initialize
         (snd (MetroHash64_updates demo \<lparr>m64 = \<lparr>seed64 = 9, fed64 = []\<rparr>\<rparr> [PyString [4, 4]]))
         (Some 5))
      (map PyString [[1], [2, 3]]))) = 149981
   \<and> metrohash64 demo (PyString [1, 2, 3]) (Some 5) = Inr 149981"
proof -
  have c: "metrohash64 demo (PyString [1, 2, 3]) (Some 5) = Inr 149981"
    by (simp add: demo_defs)
  show ?thesis
    using reset_correctness [of demo "\<lparr>m64 = \<lparr>seed64 = 9, fed64 = []\<rparr>\<rparr>" "[PyString [4, 4]]" 5
        "[[1], [2, 3]]"] c
    by simp
qed

text \<open>
  C8 (one composition at both 128-bit call sites). Whatever pair of words the primitive
  produces, \<open>metrohash128\<close> and \<open>MetroHash128.intdigest\<close> assemble it in the same
  way, the spec's \<open>assemble128\<close> with the pair's first word as the high one:
  \<open>2^64 * first + second\<close>.
\<close>

theorem same_composition:
  assumes "data_bytes X data = Inr b"
    and "c_metrohash128 X b (seed_arg seed) = (first, second)"
    and "c_bytes2int128 X (CCMetroHash128_Finalize X (m128 self)) = (first', second')"
  shows "metrohash128 X data seed = Inr (assemble128 first second)
     \<and> MetroHash128_intdigest X self = assemble128 first' second'
     \<and> assemble128 first second = 2 ^ 64 * uint first + uint second
     \<and> assemble128 first' second' = 2 ^ 64 * uint first' + uint second'"
  using metrohash128_bytes [OF assms(1), of seed]
  by (simp add: assms(2,3) MetroHash128_intdigest_pair assemble128_def)

text \<open>C8 at the bytes \<open>AB\<close> and seed 0, one-shot and incremental.\<close>

theorem same_composition_witness:
  "data_bytes demo (PyString [65, 66]) = Inr [65, 66]
   \<and> c_metrohash128 demo [65, 66] (seed_arg (Some 0)) = (2081, 3300)
   \<and> c_bytes2int128 demo
        (CCMetroHash128_Finalize demo (m128 \<lparr>m128 = \<lparr>seed128 = 0, fed128 = [65, 66]\<rparr>\<rparr>))
       = (2081, 3300)
   \<and> metrohash128 demo (PyString [65, 66]) (Some 0) = Inr (assemble128 2081 3300)
   \<and> MetroHash128_intdigest demo \<lparr>m128 = \<lparr>seed128 = 0, fed128 = [65, 66]\<rparr>\<rparr>
       = assemble128 2081 3300"
proof -
  have a: "data_bytes demo (PyString [65, 66]) = Inr [65, 66]"
    by simp
  have b: "c_metrohash128 demo [65, 66] (seed_arg (Some 0)) = (2081, 3300)"
    by (simp add: demo_defs)
  have c: "c_bytes2int128 demo
        (CCMetroHash128_Finalize demo (m128 \<lparr>m128 = \<lparr>seed128 = 0, fed128 = [65, 66]\<rparr>\<rparr>))
       = (2081, 3300)"
    by (simp add: demo_defs)
  show ?thesis
    using same_composition [OF a b c] a b c by simp
qed

text \<open>
  C9 (digest ranges). For every input that stands for bytes and every seed,
  \<open>metrohash64\<close> returns an integer in \<open>[0, 2^64)\<close> and \<open>metrohash128\<close> one in
  \<open>[0, 2^128)\<close>; so do \<open>MetroHash64.intdigest\<close> and \<open>MetroHash128.intdigest\<close> on
  every hasher. The 128-bit results keep the high word: their quotient by \<open>2^64\<close> is
  the first word of the primitive's pair.
\<close>

theorem digest_ranges:
  assumes "data_bytes X data = Inr b"
  shows "(\<exists>r. metrohash64 X data seed = Inr r \<and> 0 \<le> r \<and> r < 2 ^ 64)
     \<and> (\<exists>r. metrohash128 X data seed = Inr r \<and> 0 \<le> r \<and> r < 2 ^ 128
            \<and> r div 2 ^ 64 = uint (fst (c_metrohash128 X b (seed_arg seed))))
     \<and> 0 \<le> MetroHash64_intdigest X self64 \<and> MetroHash64_intdigest X self64 < 2 ^ 64
     \<and> 0 \<le> MetroHash128_intdigest X self128 \<and> MetroHash128_intdigest X self128 < 2 ^ 128
     \<and> MetroHash128_intdigest X self128 div 2 ^ 64 =
          uint (fst (c_bytes2int128 X (CCMetroHash128_Finalize X (m128 self128))))"
proof -
  have u: "uint w < 2 ^ 64" for w :: uint64
    using uint_lt2p [of w] by simp
  have a: "\<exists>r. metrohash64 X data seed = Inr r \<and> 0 \<le> r \<and> r < 2 ^ 64"
    using u [of "c_metrohash64 X b (seed_arg seed)"] by (simp add: metrohash64_bytes [OF assms])
  have b: "\<exists>r. metrohash128 X data seed = Inr r \<and> 0 \<le> r \<and> r < 2 ^ 128
            \<and> r div 2 ^ 64 = uint (fst (c_metrohash128 X b (seed_arg seed)))"
    unfolding metrohash128_bytes [OF assms]
    using uint64_pair_bounds(1,2,3)
      [of "fst (c_metrohash128 X b (seed_arg seed))" "snd (c_metrohash128 X b (seed_arg seed))"]
    by blast
  have c: "0 \<le> MetroHash64_intdigest X self64 \<and> MetroHash64_intdigest X self64 < 2 ^ 64"
    using u [of "c_bytes2int64 X (CCMetroHash64_Finalize X (m64 self64))"]
    by (simp add: MetroHash64_intdigest_def)
  have d: "0 \<le> MetroHash128_intdigest X self128 \<and> MetroHash128_intdigest X self128 < 2 ^ 128
     \<and> MetroHash128_intdigest X self128 div 2 ^ 64 =
          uint (fst (c_bytes2int128 X (CCMetroHash128_Finalize X (m128 self128))))"
    unfolding MetroHash128_intdigest_pair
    using uint64_pair_bounds(1,2,3)
      [of "fst (c_bytes2int128 X (CCMetroHash128_Finalize X (m128 self128)))"
          "snd (c_bytes2int128 X (CCMetroHash128_Finalize X (m128 self128)))"]
    by blast
  show ?thesis using a b c d by blast
qed

text \<open>C9 at the bytes 1, 2, 3 and seed 5, where the 128-bit result exceeds \<open>2^64\<close>.\<close>

theorem digest_ranges_witness:
  "data_bytes demo (PyString [1, 2, 3]) = Inr [1, 2, 3]
   \<and> metrohash64 demo (PyString [1, 2, 3]) (Some 5) = Inr 149981
   \<and> metrohash128 demo (PyString [1, 2, 3]) (Some 5) = Inr 2766661122919032261136076
   \<and> (2 :: int) ^ 64 \<le> 2766661122919032261136076
   \<and> (\<exists>r. metrohash128 demo (PyString [1, 2, 3]) (Some 5) = Inr r \<and> 0 \<le> r \<and> r < 2 ^ 128)"
proof -
  have a: "data_bytes demo (PyString [1, 2, 3]) = Inr [1, 2, 3]"
    by simp
  have b: "metrohash64 demo (PyString [1, 2, 3]) (Some 5) = Inr 149981"
    by (simp add: demo_defs)
  have c: "metrohash128 demo (PyString [1, 2, 3]) (Some 5) = Inr 2766661122919032261136076"
    by (simp add: demo_defs)
  show ?thesis
    using digest_ranges [OF a, of "Some 5"] a b c by simp
qed

text \<open>
  C10 (empty update). On every hasher, \<open>update\<close> with the empty byte string, or with
  the empty text when its encoding is empty, raises nothing and leaves the hasher as it
  was; inserted anywhere in a sequence of updates it changes neither the outcome nor the
  hasher, hence no digest read later. The one-shot hash of the empty byte string is the
  digest of a freshly constructed hasher with the same seed.
\<close>

theorem empty_update_identity:
  assumes "PyUnicode_AsUTF8String X [] = Some []"
    and "MetroHash64_cinit True seed = Inr f64"
    and "MetroHash128_cinit True seed = Inr f128"
  shows "MetroHash64_update X self64 (PyString []) = (None, self64)
     \<and> MetroHash64_update X self64 (PyUnicode []) = (None, self64)
     \<and> MetroHash128_update X self128 (PyString []) = (None, self128)
     \<and> MetroHash128_update X self128 (PyUnicode []) = (None, self128)
     \<and> MetroHash64_updates X self64 (xs @ PyString [] # ys) = MetroHash64_updates X self64 (xs @ ys)
     \<and> MetroHash64_updates X self64 (xs @ PyUnicode [] # ys) = MetroHash64_updates X self64 (xs @ ys)
     \<and> MetroHash128_updates X self128 (xs @ PyString [] # ys) = MetroHash128_updates X self128 (xs @ ys)
     \<and> MetroHash128_updates X self128 (xs @ PyUnicode [] # ys) = MetroHash128_updates X self128 (xs @ ys)
     \<and> metrohash64 X (PyString []) seed = Inr (MetroHash64_intdigest X f64)
     \<and> metrohash128 X (PyString []) seed = Inr (MetroHash128_intdigest X f128)"
proof -
  have s: "data_bytes X (PyString []) = Inr []" by simp
  have t: "data_bytes X (PyUnicode []) = Inr []" by (simp add: assms(1))
  have f64: "f64 = \<lparr>m64 = CCMetroHash64_Initialize (seed_arg seed)\<rparr>"
    using assms(2) by (simp add: MetroHash64_cinit_True)
  have f128: "f128 = \<lparr>m128 = CCMetroHash128_Initialize (seed_arg seed)\<rparr>"
    using assms(3) by (simp add: MetroHash128_cinit_True)
  have a: "metrohash64 X (PyString []) seed = Inr (MetroHash64_intdigest X f64)"
    by (simp add: metrohash64_bytes [OF s] f64 MetroHash64_intdigest_def c_metrohash64_def
        CCMetroHash64_Update_Nil)
  have b: "metrohash128 X (PyString []) seed = Inr (MetroHash128_intdigest X f128)"
    by (simp add: metrohash128_bytes [OF s] f128 MetroHash128_intdigest_pair c_metrohash128_def
        CCMetroHash128_Update_Nil)
  show ?thesis
    using a b
    by (simp only: MetroHash64_update_empty [OF s] MetroHash64_update_empty [OF t]
        MetroHash128_update_empty [OF s] MetroHash128_update_empty [OF t]
        MetroHash64_updates_skip [OF s] MetroHash64_updates_skip [OF t]
        MetroHash128_updates_skip [OF s] MetroHash128_updates_skip [OF t] simp_thms)
qed

text \<open>C10 at seed 7, with the empty text between two updates.\<close>

theorem empty_update_identity_witness:
  "PyUnicode_AsUTF8String demo [] = Some []
   \<and> MetroHash64_cinit True (Some 7) = Inr \<lparr>m64 = \<lparr>seed64 = 7, fed64 = []\<rparr>\<rparr>
   \<and> MetroHash128_cinit True (Some 7) = Inr \<lparr>m128 = \<lparr>seed128 = 7, fed128 = []\<rparr>\<rparr>
   \<and> MetroHash64_updates demo \<lparr>m64 = \<lparr>seed64 = 7, fed64 = []\<rparr>\<rparr>
        ([PyString [1]] @ PyUnicode [] # [PyString [2]])
       = (None, \<lparr>m64 = \<lparr>seed64 = 7, fed64 = [1, 2]\<rparr>\<rparr>)
   \<and> metrohash64 demo (PyString []) (Some 7) = Inr 7
   \<and> MetroHash64_intdigest demo \<lparr>m64 = \<lparr>seed64 = 7, fed64 = []\<rparr>\<rparr> = 7"
proof -
  have a: "PyUnicode_AsUTF8String demo [] = Some []"
    by (simp add: demo_defs)
  have b: "MetroHash64_cinit True (Some 7) = Inr \<lparr>m64 = \<lparr>seed64 = 7, fed64 = []\<rparr>\<rparr>"
    by (simp add: demo_defs)
  have c: "MetroHash128_cinit True (Some 7) = Inr \<lparr>m128 = \<lparr>seed128 = 7, fed128 = []\<rparr>\<rparr>"
    by (simp add: demo_defs)
  have d: "metrohash64 demo (PyString []) (Some 7) = Inr 7"
    by (simp add: demo_defs)
  have e: "MetroHash64_updates demo \<lparr>m64 = \<lparr>seed64 = 7, fed64 = []\<rparr>\<rparr> [PyString [1], PyString [2]]
       = (None, \<lparr>m64 = \<lparr>seed64 = 7, fed64 = [1, 2]\<rparr>\<rparr>)"
    by (simp add: demo_defs)
  show ?thesis
    using empty_update_identity [OF a b c, of "\<lparr>m64 = \<lparr>seed64 = 7, fed64 = []\<rparr>\<rparr>" _
        "[PyString [1]]" "[PyString [2]]"] a b c d e
    by simp
qed

end
